theory Spec2Isabelle
  imports Complex_Main
begin

text \<open>
  The charge and profit-and-loss calculator of \<open>Script.js\<close>: \<open>calculateTradeCharges\<close>,
  which prices one leg of a trade, and \<open>calculateProfitLoss\<close>, which validates a buy and
  a sell leg read from the page and combines their charges.
\<close>

section \<open>Numbers and strings of the script\<close>

text \<open>
  A number of the script is a double. The model keeps the three special values a double
  can take and computes on the finite ones in exact real arithmetic: rounding to 53 bits,
  overflow, underflow and the sign of zero are not modelled. A decimal literal of the
  source stands for the decimal fraction it writes.
\<close>

datatype jsnum = Fin real | PosInf | NegInf | NaN

text \<open>The infinity with the sign of \<open>s\<close>; \<open>NaN\<close> for the product of zero and an infinity.\<close>

definition signInf :: "real \<Rightarrow> jsnum" where
  "signInf s = (if 0 < s then PosInf else if s < 0 then NegInf else NaN)"

fun jneg :: "jsnum \<Rightarrow> jsnum" where
  "jneg (Fin a) = Fin (- a)"
| "jneg PosInf = NegInf"
| "jneg NegInf = PosInf"
| "jneg NaN = NaN"

text \<open>\<open>x * y\<close>\<close>

fun jmul :: "jsnum \<Rightarrow> jsnum \<Rightarrow> jsnum" where
  "jmul NaN y = NaN"
| "jmul x NaN = NaN"
| "jmul (Fin a) (Fin b) = Fin (a * b)"
| "jmul (Fin a) PosInf = signInf a"
| "jmul (Fin a) NegInf = signInf (- a)"
| "jmul PosInf (Fin b) = signInf b"
| "jmul NegInf (Fin b) = signInf (- b)"
| "jmul PosInf PosInf = PosInf"
| "jmul PosInf NegInf = NegInf"
| "jmul NegInf PosInf = NegInf"
| "jmul NegInf NegInf = PosInf"

text \<open>\<open>x + y\<close>\<close>

fun jadd :: "jsnum \<Rightarrow> jsnum \<Rightarrow> jsnum" where
  "jadd NaN y = NaN"
| "jadd x NaN = NaN"
| "jadd (Fin a) (Fin b) = Fin (a + b)"
| "jadd (Fin a) PosInf = PosInf"
| "jadd (Fin a) NegInf = NegInf"
| "jadd PosInf (Fin b) = PosInf"
| "jadd NegInf (Fin b) = NegInf"
| "jadd PosInf PosInf = PosInf"
| "jadd PosInf NegInf = NaN"
| "jadd NegInf PosInf = NaN"
| "jadd NegInf NegInf = NegInf"

text \<open>\<open>x - y\<close>\<close>

definition jsub :: "jsnum \<Rightarrow> jsnum \<Rightarrow> jsnum" where
  "jsub x y = jadd x (jneg y)"

text \<open>\<open>x / y\<close>; a zero divisor counts as \<open>+0\<close>.\<close>

fun jdiv :: "jsnum \<Rightarrow> jsnum \<Rightarrow> jsnum" where
  "jdiv NaN y = NaN"
| "jdiv x NaN = NaN"
| "jdiv (Fin a) (Fin b) = (if b = 0 then signInf a else Fin (a / b))"
| "jdiv (Fin a) PosInf = Fin 0"
| "jdiv (Fin a) NegInf = Fin 0"
| "jdiv PosInf (Fin b) = (if 0 \<le> b then PosInf else NegInf)"
| "jdiv NegInf (Fin b) = (if 0 \<le> b then NegInf else PosInf)"
| "jdiv PosInf PosInf = NaN"
| "jdiv PosInf NegInf = NaN"
| "jdiv NegInf PosInf = NaN"
| "jdiv NegInf NegInf = NaN"

text \<open>\<open>x <= y\<close>: false as soon as one side is \<open>NaN\<close>.\<close>

fun jle :: "jsnum \<Rightarrow> jsnum \<Rightarrow> bool" where
  "jle NaN y = False"
| "jle x NaN = False"
| "jle (Fin a) (Fin b) = (a \<le> b)"
| "jle (Fin a) PosInf = True"
| "jle (Fin a) NegInf = False"
| "jle PosInf (Fin b) = False"
| "jle NegInf (Fin b) = True"
| "jle PosInf PosInf = True"
| "jle PosInf NegInf = False"
| "jle NegInf PosInf = True"
| "jle NegInf NegInf = True"

text \<open>\<open>x > y\<close>\<close>

fun jgt :: "jsnum \<Rightarrow> jsnum \<Rightarrow> bool" where
  "jgt NaN y = False"
| "jgt x NaN = False"
| "jgt (Fin a) (Fin b) = (b < a)"
| "jgt (Fin a) PosInf = False"
| "jgt (Fin a) NegInf = True"
| "jgt PosInf (Fin b) = True"
| "jgt NegInf (Fin b) = False"
| "jgt PosInf PosInf = False"
| "jgt PosInf NegInf = True"
| "jgt NegInf PosInf = False"
| "jgt NegInf NegInf = False"

text \<open>\<open>x !== y\<close> on numbers: \<open>NaN\<close> differs from everything, itself included.\<close>

fun jsne :: "jsnum \<Rightarrow> jsnum \<Rightarrow> bool" where
  "jsne NaN y = True"
| "jsne x NaN = True"
| "jsne x y = (x \<noteq> y)"

fun isNaN :: "jsnum \<Rightarrow> bool" where
  "isNaN NaN = True"
| "isNaN x = False"

fun isFinite :: "jsnum \<Rightarrow> bool" where
  "isFinite (Fin a) = True"
| "isFinite x = False"

text \<open>\<open>Math.round\<close>: the nearest integer, a tie going up.\<close>

fun Math_round :: "jsnum \<Rightarrow> jsnum" where
  "Math_round (Fin a) = Fin (of_int \<lfloor>a + 1 / 2\<rfloor>)"
| "Math_round x = x"

text \<open>
  A string is a list of 8-bit characters. \<open>toUpperCase\<close> maps the letters \<open>a\<close> to \<open>z\<close>
  to \<open>A\<close> to \<open>Z\<close> and leaves every other character as it is; the names the script
  compares with (\<open>ROLLING T1\<close>, \<open>F&O\<close>, \<open>BUY\<close>, \<open>SELL\<close>) are ASCII.
\<close>

definition upperChar :: "char \<Rightarrow> char" where
  "upperChar c =
     (case map_of (zip ''abcdefghijklmnopqrstuvwxyz'' ''ABCDEFGHIJKLMNOPQRSTUVWXYZ'') c of
        None \<Rightarrow> c
      | Some u \<Rightarrow> u)"

definition toUpperCase :: "string \<Rightarrow> string" where
  "toUpperCase s = map upperChar s"

section \<open>The constants of the fee schedule\<close>

definition TAX_GST :: jsnum where
  "TAX_GST = Fin 0.18"

definition RATE_SEBI_EXCH :: jsnum where
  "RATE_SEBI_EXCH = jdiv (jadd (Fin 0.0001) (Fin 0.00307)) (Fin 100)"

definition RATE_BROKERAGE_DELIVERY :: jsnum where
  "RATE_BROKERAGE_DELIVERY = Fin 0.000704847026178763"


section \<open>calculateTradeCharges\<close>

text \<open>The constants and variables of the body of \<open>calculateTradeCharges\<close>, in its order.\<close>

record trade_locals =
  tradeValue :: jsnum
  isDelivery :: bool
  actionUpper :: string
  segmentUpper :: string
  brokerageBase :: jsnum
  brokerageGST :: jsnum
  totalBrokerage :: jsnum
  stt :: jsnum
  sebiTurnover :: jsnum
  exchangeCharges :: jsnum
  sebiExchangeCharges :: jsnum
  stampDuty :: jsnum
  totalCharges :: jsnum

definition tradeLocals :: "jsnum \<Rightarrow> jsnum \<Rightarrow> string \<Rightarrow> string \<Rightarrow> trade_locals" where
  "tradeLocals qty price action segment =
     (let tradeValue = jmul qty price;
          isDelivery = (toUpperCase segment = ''ROLLING T1'');
          actionUpper = toUpperCase action;
          segmentUpper = toUpperCase segment;
          brokerageBase =
            (if isDelivery then jmul tradeValue RATE_BROKERAGE_DELIVERY
             else jmul tradeValue (Fin 0.00007));
          brokerageGST = jmul brokerageBase TAX_GST;
          totalBrokerage = jadd brokerageBase brokerageGST;
          stt =
            (if segmentUpper = ''F&O'' \<and> actionUpper = ''SELL'' then jmul tradeValue (Fin 0.0002)
             else if isDelivery then jmul tradeValue (Fin 0.001)
             else if actionUpper = ''SELL'' then jmul tradeValue (Fin 0.00025)
             else Fin 0);
          sebiTurnover = jmul tradeValue (Fin 0.000001);
          exchangeCharges =
            (if segmentUpper = ''F&O'' then jmul tradeValue (Fin 0.0000183)
             else jmul tradeValue (Fin 0.0000307));
          sebiExchangeCharges = jadd sebiTurnover exchangeCharges;
          stampDuty =
            (if segmentUpper = ''F&O'' \<and> actionUpper = ''BUY'' then jmul tradeValue (Fin 0.00002)
             else if isDelivery then
               (if actionUpper = ''BUY'' then jmul tradeValue (Fin 0.00015) else Fin 0)
             else
               (if actionUpper = ''BUY'' then jmul tradeValue (Fin 0.00003) else Fin 0));
          totalCharges = jadd (jadd (jadd stt sebiExchangeCharges) stampDuty) totalBrokerage
      in \<lparr>tradeValue = tradeValue, isDelivery = isDelivery, actionUpper = actionUpper,
          segmentUpper = segmentUpper, brokerageBase = brokerageBase,
          brokerageGST = brokerageGST, totalBrokerage = totalBrokerage, stt = stt,
          sebiTurnover = sebiTurnover, exchangeCharges = exchangeCharges,
          sebiExchangeCharges = sebiExchangeCharges, stampDuty = stampDuty,
          totalCharges = totalCharges\<rparr>)"

text \<open>
  The object \<open>calculateTradeCharges\<close> returns: six rounded display fields (\<open>shown_\<close>),
  the quantity \<open>qty\<close> (here \<open>leg_qty\<close>), and the two unrounded fields \<open>_originalTradeValue\<close> and
  \<open>_originalTotalCharges\<close>.
\<close>

record charges =
  shown_tradeValue :: jsnum
  shown_stt :: jsnum
  shown_sebiExchangeCharges :: jsnum
  shown_stampDuty :: jsnum
  shown_totalBrokerage :: jsnum
  shown_totalCharges :: jsnum
  leg_qty :: jsnum
  originalTradeValue :: jsnum
  originalTotalCharges :: jsnum

definition calculateTradeCharges :: "jsnum \<Rightarrow> jsnum \<Rightarrow> string \<Rightarrow> string \<Rightarrow> charges" where
  "calculateTradeCharges qty price action segment =
     (let l = tradeLocals qty price action segment
      in \<lparr>shown_tradeValue = Math_round (tradeValue l),
          shown_stt = Math_round (stt l),
          shown_sebiExchangeCharges = Math_round (sebiExchangeCharges l),
          shown_stampDuty = Math_round (stampDuty l),
          shown_totalBrokerage = Math_round (totalBrokerage l),
          shown_totalCharges = Math_round (totalCharges l),
          leg_qty = qty,
          originalTradeValue = tradeValue l,
          originalTotalCharges = totalCharges l\<rparr>)"

section \<open>calculateProfitLoss\<close>

text \<open>
  \<open>calculateProfitLoss\<close> takes no argument: it reads six fields of the page and writes its
  results to the page. The model keeps what the function computes and leaves out how the
  page renders it (the rounded table cells, the colour class of the net figure, the
  four-decimal text of the loaded rate).

  An early return is a failure: the text the function puts in \<open>errorMsg\<close> and the
  elements it hides. The two failures of the function are named as the specification
  names them.
\<close>

datatype failure = Failure (message: string) (hidden: "string list")

definition InvalidInput :: failure where
  "InvalidInput =
     Failure ''Please enter valid quantities and prices (> 0).''
       [''resultsHeader'', ''finalPL'', ''loadedRateSection'']"

definition QuantityMismatch :: failure where
  "QuantityMismatch =
     Failure ''The Buy Quantity and Sell Quantity must match for a single P&L calculation.''
       [''finalPL'', ''loadedRateSection'']"

text \<open>
  What a run that reaches the end has computed: the constants of steps 2 and 4 of the body
  (\<open>totalCharges_pl\<close> is its \<open>totalCharges\<close>, shown in the element \<open>total-charges-pl\<close>).
\<close>

record pnl =
  buyCharges :: charges
  sellChargesActual :: charges
  grossProfit :: jsnum
  totalCharges_pl :: jsnum
  netProfitLoss :: jsnum
  totalBuyTradeValue :: jsnum
  sellPriceRequiredToBreakEven :: jsnum

text \<open>
  The body of \<open>calculateProfitLoss\<close> from the validation on (steps 1 to 4), as a function
  of the six values the function has read.
\<close>

definition pnlFromInputs ::
  "jsnum \<Rightarrow> jsnum \<Rightarrow> string \<Rightarrow> jsnum \<Rightarrow> jsnum \<Rightarrow> string \<Rightarrow> failure + pnl" where
  "pnlFromInputs buyQty buyPrice buySegment sellQty sellPrice sellSegment =
     (if jle buyQty (Fin 0) \<or> jle buyPrice (Fin 0) \<or> jle sellQty (Fin 0) \<or>
         jle sellPrice (Fin 0) \<or> isNaN buyQty \<or> isNaN buyPrice
      then Inl InvalidInput
      else if jsne buyQty sellQty then Inl QuantityMismatch
      else
        (let buyCharges = calculateTradeCharges buyQty buyPrice ''BUY'' buySegment;
             sellChargesActual = calculateTradeCharges sellQty sellPrice ''SELL'' sellSegment;
             grossProfit = jsub (jmul sellQty sellPrice) (jmul buyQty buyPrice);
             totalCharges =
               jadd (originalTotalCharges buyCharges) (originalTotalCharges sellChargesActual);
             netProfitLoss = jsub grossProfit totalCharges;
             totalBuyTradeValue = originalTradeValue buyCharges;
             sellPriceRequiredToBreakEven =
               jdiv (jadd totalBuyTradeValue totalCharges)
                 (if jgt buyQty (Fin 0) then buyQty else Fin 1)
         in Inr \<lparr>buyCharges = buyCharges, sellChargesActual = sellChargesActual,
                 grossProfit = grossProfit, totalCharges_pl = totalCharges,
                 netProfitLoss = netProfitLoss, totalBuyTradeValue = totalBuyTradeValue,
                 sellPriceRequiredToBreakEven = sellPriceRequiredToBreakEven\<rparr>))"

text \<open>
  The six input fields of the page. A quantity or price field holds the number that
  \<open>Number\<close> makes of the field's text; a segment field holds its text.
\<close>

record form =
  buyQty :: jsnum
  buyPrice :: jsnum
  buySegment :: string
  sellQty :: jsnum
  sellPrice :: jsnum
  sellSegment :: string

text \<open>The first two statements: the sell quantity and segment are set to the buy side's.\<close>

definition mirrorBuySide :: "form \<Rightarrow> form" where
  "mirrorBuySide f = f\<lparr>sellQty := buyQty f, sellSegment := buySegment f\<rparr>"

text \<open>The whole function: the page's fields after the call, and the failure or the result.\<close>

definition calculateProfitLoss :: "form \<Rightarrow> form \<times> (failure + pnl)" where
  "calculateProfitLoss f =
     (let f' = mirrorBuySide f
      in (f', pnlFromInputs (buyQty f') (buyPrice f') (buySegment f')
                (sellQty f') (sellPrice f') (sellSegment f')))"

section \<open>Properties of calculateTradeCharges\<close>

text \<open>The comparisons of the function are made on upper-cased text.\<close>

lemma toUpperCase_names:
  "toUpperCase ''BUY'' = ''BUY''" "toUpperCase ''SELL'' = ''SELL''"
  "toUpperCase ''ROLLING T1'' = ''ROLLING T1''" "toUpperCase ''INTRADAY'' = ''INTRADAY''"
  "toUpperCase ''F&O'' = ''F&O''"
  "toUpperCase ''buy'' = ''BUY''" "toUpperCase ''sell'' = ''SELL''"
  "toUpperCase ''rolling t1'' = ''ROLLING T1''" "toUpperCase ''Intraday'' = ''INTRADAY''"
  "toUpperCase ''f&o'' = ''F&O''"
  by (simp_all add: toUpperCase_def upperChar_def)























section \<open>Properties of calculateProfitLoss\<close>

text \<open>
  What the function computes depends on the page through the buy quantity, the buy price,
  the buy segment and the sell price only; a number is different from itself only when it
  is \<open>NaN\<close>, and the validation has rejected a \<open>NaN\<close> buy quantity by then.
\<close>

lemma original_fields:
  "originalTradeValue (calculateTradeCharges qty price action segment) =
     tradeValue (tradeLocals qty price action segment)"
  "originalTotalCharges (calculateTradeCharges qty price action segment) =
     totalCharges (tradeLocals qty price action segment)"
  by (simp_all add: calculateTradeCharges_def Let_def)

lemma jsne_same: "\<not> isNaN x \<Longrightarrow> \<not> jsne x x"
  by (cases x) simp_all

lemma jsne_positive: "jgt x (Fin 0) \<Longrightarrow> jgt y (Fin 0) \<Longrightarrow> jsne x y = (x \<noteq> y)"
  by (cases x; cases y) simp_all

lemma jgt_positive: "jgt x (Fin 0) \<Longrightarrow> \<not> jle x (Fin 0) \<and> \<not> isNaN x"
  by (cases x) simp_all

lemma calculateProfitLoss_snd:
  "snd (calculateProfitLoss f) =
     pnlFromInputs (buyQty f) (buyPrice f) (buySegment f) (buyQty f) (sellPrice f) (buySegment f)"
  by (simp add: calculateProfitLoss_def mirrorBuySide_def Let_def)

lemma mismatch_needs_difference:
  "pnlFromInputs bq bp bs bq sp ss \<noteq> Inl QuantityMismatch"
proof (cases "jle bq (Fin 0) \<or> jle bp (Fin 0) \<or> jle bq (Fin 0) \<or> jle sp (Fin 0) \<or> isNaN bq \<or> isNaN bp")
  case True
  then have "pnlFromInputs bq bp bs bq sp ss = Inl InvalidInput"
    by (simp add: pnlFromInputs_def)
  then show ?thesis by (simp add: InvalidInput_def QuantityMismatch_def)
next
  case False
  then have "\<not> jsne bq bq" by (simp add: jsne_same)
  with False show ?thesis by (simp add: pnlFromInputs_def Let_def)
qed




text \<open>
  C7, as the claim states it, fails: an infinite price is not a finite number, yet it
  passes the validation and a result is computed from it.
\<close>

theorem invalidInput_counterexample:
  "\<not> isFinite PosInf
   \<and> snd (calculateProfitLoss \<lparr>buyQty = Fin 50, buyPrice = PosInf, buySegment = ''INTRADAY'',
             sellQty = Fin 50, sellPrice = Fin 210, sellSegment = ''INTRADAY''\<rparr>) \<noteq> Inl InvalidInput
   \<and> \<not> isl (snd (calculateProfitLoss \<lparr>buyQty = Fin 50, buyPrice = PosInf,
             buySegment = ''INTRADAY'', sellQty = Fin 50, sellPrice = Fin 210,
             sellSegment = ''INTRADAY''\<rparr>))
   \<and> netProfitLoss (projr (snd (calculateProfitLoss \<lparr>buyQty = Fin 50, buyPrice = PosInf,
             buySegment = ''INTRADAY'', sellQty = Fin 50, sellPrice = Fin 210,
             sellSegment = ''INTRADAY''\<rparr>))) = NegInf"
  by (simp add: calculateProfitLoss_snd pnlFromInputs_def Let_def original_fields
      tradeLocals_def toUpperCase_names TAX_GST_def signInf_def jsub_def)

text \<open>
  C7, amended. Whenever the buy quantity, the buy price or the sell price on the page is
  at most 0, or the buy quantity or the buy price is \<open>NaN\<close>, \<open>calculateProfitLoss\<close> ends
  with the failure \<open>InvalidInput\<close> and computes no charge and no result. The validation
  itself, on the four numbers read, also rejects a sell quantity that is at most 0.
\<close>

theorem invalidInput_rejected:
  "(jle (buyQty f) (Fin 0) \<or> jle (buyPrice f) (Fin 0) \<or> jle (sellPrice f) (Fin 0) \<or>
    isNaN (buyQty f) \<or> isNaN (buyPrice f) \<longrightarrow>
      snd (calculateProfitLoss f) = Inl InvalidInput)
   \<and> (jle bq (Fin 0) \<or> jle bp (Fin 0) \<or> jle sq (Fin 0) \<or> jle sp (Fin 0) \<or>
       isNaN bq \<or> isNaN bp \<longrightarrow>
        pnlFromInputs bq bp bs sq sp ss = Inl InvalidInput)"
  by (auto simp: calculateProfitLoss_snd pnlFromInputs_def)

theorem invalidInput_rejected_witness:
  "jle (Fin 0) (Fin 0)
   \<and> snd (calculateProfitLoss \<lparr>buyQty = Fin 0, buyPrice = Fin 200, buySegment = ''INTRADAY'',
             sellQty = Fin 50, sellPrice = Fin 210, sellSegment = ''INTRADAY''\<rparr>) = Inl InvalidInput
   \<and> isNaN NaN
   \<and> pnlFromInputs (Fin 50) NaN ''INTRADAY'' (Fin 50) (Fin 210) ''INTRADAY'' = Inl InvalidInput"
  using invalidInput_rejected [of "\<lparr>buyQty = Fin 0, buyPrice = Fin 200, buySegment = ''INTRADAY'',
             sellQty = Fin 50, sellPrice = Fin 210, sellSegment = ''INTRADAY''\<rparr>"
          "Fin 50" NaN "Fin 50" "Fin 210" "''INTRADAY''" "''INTRADAY''"]
  by simp

text \<open>
  C8, as the claim states it, fails: with a buy quantity of 50 and a sell quantity of 60 on
  the page, no mismatch is signalled and a result is computed for 50 on both legs.
\<close>

theorem quantityMismatch_counterexample:
  "Fin 50 \<noteq> Fin 60
   \<and> snd (calculateProfitLoss \<lparr>buyQty = Fin 50, buyPrice = Fin 200, buySegment = ''INTRADAY'',
             sellQty = Fin 60, sellPrice = Fin 210, sellSegment = ''INTRADAY''\<rparr>)
       \<noteq> Inl QuantityMismatch
   \<and> \<not> isl (snd (calculateProfitLoss \<lparr>buyQty = Fin 50, buyPrice = Fin 200,
             buySegment = ''INTRADAY'', sellQty = Fin 60, sellPrice = Fin 210,
             sellSegment = ''INTRADAY''\<rparr>))
   \<and> grossProfit (projr (snd (calculateProfitLoss \<lparr>buyQty = Fin 50, buyPrice = Fin 200,
             buySegment = ''INTRADAY'', sellQty = Fin 60, sellPrice = Fin 210,
             sellSegment = ''INTRADAY''\<rparr>))) = Fin 500"
  by (simp add: calculateProfitLoss_snd pnlFromInputs_def Let_def jsub_def)

text \<open>
  C8, amended. When the four numbers read are all greater than 0 and the buy quantity read
  differs from the sell quantity read, the body ends with the failure \<open>QuantityMismatch\<close>,
  which is not \<open>InvalidInput\<close>, and computes no result. \<open>calculateProfitLoss\<close> itself
  never ends with it, whatever the page holds.
\<close>

theorem quantityMismatch_signalled:
  assumes "jgt bq (Fin 0)" and "jgt bp (Fin 0)" and "jgt sq (Fin 0)" and "jgt sp (Fin 0)"
    and "bq \<noteq> sq"
  shows "pnlFromInputs bq bp bs sq sp ss = Inl QuantityMismatch
         \<and> QuantityMismatch \<noteq> InvalidInput
         \<and> snd (calculateProfitLoss f) \<noteq> Inl QuantityMismatch"
proof -
  from assms(1-4) have ok: "\<not> (jle bq (Fin 0) \<or> jle bp (Fin 0) \<or> jle sq (Fin 0) \<or>
      jle sp (Fin 0) \<or> isNaN bq \<or> isNaN bp)"
    by (simp add: jgt_positive)
  from assms have "jsne bq sq" by (simp add: jsne_positive)
  with ok have "pnlFromInputs bq bp bs sq sp ss = Inl QuantityMismatch"
    by (simp add: pnlFromInputs_def)
  moreover have "QuantityMismatch \<noteq> InvalidInput"
    by (simp add: QuantityMismatch_def InvalidInput_def)
  moreover have "snd (calculateProfitLoss f) \<noteq> Inl QuantityMismatch"
    by (simp add: calculateProfitLoss_snd mismatch_needs_difference)
  ultimately show ?thesis by simp
qed

theorem quantityMismatch_signalled_witness:
  "jgt (Fin 50) (Fin 0) \<and> jgt (Fin 200) (Fin 0) \<and> jgt (Fin 60) (Fin 0) \<and> jgt (Fin 210) (Fin 0)
   \<and> Fin 50 \<noteq> Fin 60
   \<and> pnlFromInputs (Fin 50) (Fin 200) ''INTRADAY'' (Fin 60) (Fin 210) ''INTRADAY''
       = Inl QuantityMismatch"
proof -
  have h: "jgt (Fin 50) (Fin 0)" "jgt (Fin 200) (Fin 0)" "jgt (Fin 60) (Fin 0)"
    "jgt (Fin 210) (Fin 0)" "Fin 50 \<noteq> Fin 60"
    by simp_all
  from quantityMismatch_signalled [OF h, of "''INTRADAY''" "''INTRADAY''"] h
  show ?thesis by simp
qed

text \<open>
  C10. \<open>calculateProfitLoss\<close> overwrites the sell quantity and the sell segment of the
  page with the buy side's before it reads anything. Two runs that differ only in the sell
  quantity and sell segment on the page end with the same page fields and the same failure
  or result, and no run ends with \<open>QuantityMismatch\<close>.
\<close>

theorem sell_side_ignored:
  "calculateProfitLoss (f\<lparr>sellQty := sq, sellSegment := ss\<rparr>) = calculateProfitLoss f
   \<and> fst (calculateProfitLoss f) = f\<lparr>sellQty := buyQty f, sellSegment := buySegment f\<rparr>
   \<and> snd (calculateProfitLoss f) =
       pnlFromInputs (buyQty f) (buyPrice f) (buySegment f)
         (buyQty f) (sellPrice f) (buySegment f)
   \<and> snd (calculateProfitLoss f) \<noteq> Inl QuantityMismatch"
  by (simp add: calculateProfitLoss_def mirrorBuySide_def Let_def mismatch_needs_difference)

theorem sell_side_ignored_witness:
  "calculateProfitLoss \<lparr>buyQty = Fin 50, buyPrice = Fin 200, buySegment = ''INTRADAY'',
       sellQty = Fin 60, sellPrice = Fin 210, sellSegment = ''F&O''\<rparr>
   = calculateProfitLoss \<lparr>buyQty = Fin 50, buyPrice = Fin 200, buySegment = ''INTRADAY'',
       sellQty = Fin 50, sellPrice = Fin 210, sellSegment = ''INTRADAY''\<rparr>"
  using sell_side_ignored [where f = "\<lparr>buyQty = Fin 50, buyPrice = Fin 200,
       buySegment = ''INTRADAY'', sellQty = Fin 50, sellPrice = Fin 210,
       sellSegment = ''INTRADAY''\<rparr>" and sq = "Fin 60" and ss = "''F&O''"]
  by simp

end
